theory Spec2Isabelle
  imports Main
begin

section \<open>The landing page \<^verbatim>\<open>src/pages/Index.tsx\<close>\<close>

text \<open>
  The page is one React function component, \<^verbatim>\<open>Index\<close>. Its body declares two constant
  arrays (\<^verbatim>\<open>learningPaths\<close>, \<^verbatim>\<open>features\<close>), one helper (\<^verbatim>\<open>getDifficultyColor\<close>) and
  returns one JSX expression. A JSX expression evaluates to a tree of React elements;
  the tree is modelled as it is returned, the imported components (\<^verbatim>\<open>Card\<close>,
  \<^verbatim>\<open>Badge\<close>, \<^verbatim>\<open>Button\<close>, the icons) are not expanded.
\<close>

subsection \<open>React elements\<close>

text \<open>
  A JSX attribute is either a string (\<^verbatim>\<open>className="..."\<close>, \<^verbatim>\<open>key={tech}\<close>) or a number
  (\<^verbatim>\<open>key={index}\<close>). An element type is a host tag (\<^verbatim>\<open><div>\<close>) or a component
  (\<^verbatim>\<open><Card>\<close>). Strings are lists of 8-bit characters; every string literal of the page
  is ASCII.
\<close>

datatype attr = Str string | Num nat

datatype tag = Host string | Component string

datatype vnode = Element tag "(string \<times> attr) list" "vnode list" | Text string

subsection \<open>The difficulty badge style\<close>

text \<open>
  \<^verbatim>\<open>
  const getDifficultyColor = (difficulty: string) => {
    switch (difficulty) {
      case 'Beginner': return 'bg-green-100 text-green-800';
      case 'Intermediate': return 'bg-yellow-100 text-yellow-800';
      case 'Advanced': return 'bg-red-100 text-red-800';
      default: return 'bg-gray-100 text-gray-800';
    }
  };
  \<close>
  A \<^verbatim>\<open>switch\<close> compares with strict equality, case by case in the order written.
\<close>

definition getDifficultyColor :: "string \<Rightarrow> string" where
  "getDifficultyColor difficulty =
     (if difficulty = ''Beginner'' then ''bg-green-100 text-green-800''
      else if difficulty = ''Intermediate'' then ''bg-yellow-100 text-yellow-800''
      else if difficulty = ''Advanced'' then ''bg-red-100 text-red-800''
      else ''bg-gray-100 text-gray-800'')"

text \<open>
  Two strings differ only in letter case when they are different and equal once every
  ASCII capital is replaced by its small letter. This predicate is used to state
  case-sensitivity; it is not part of the page.
\<close>

definition lower_ascii :: "char \<Rightarrow> char" where
  "lower_ascii c =
     (case map_of (zip ''ABCDEFGHIJKLMNOPQRSTUVWXYZ'' ''abcdefghijklmnopqrstuvwxyz'') c of
        Some l \<Rightarrow> l
      | None \<Rightarrow> c)"

definition differs_only_in_case :: "string \<Rightarrow> string \<Rightarrow> bool" where
  "differs_only_in_case a b = (a \<noteq> b \<and> map lower_ascii a = map lower_ascii b)"

subsection \<open>The two constant arrays\<close>

text \<open>
  The elements of \<^verbatim>\<open>features\<close> are objects \<^verbatim>\<open>{ icon, title, description }\<close>, those of
  \<^verbatim>\<open>learningPaths\<close> are objects \<^verbatim>\<open>{ title, description, icon, topics, difficulty, color }\<close>.
  The two object types share field names, so the fields of a feature are written
  qualified (\<open>feature.title\<close>).
\<close>

record feature =
  icon :: vnode
  title :: string
  description :: string

record learning_path =
  title :: string
  description :: string
  icon :: vnode
  topics :: "string list"
  difficulty :: string
  color :: string

definition learningPaths :: "learning_path list" where
  "learningPaths =
    [\<lparr> title = ''HTML Fundamentals'',
       description = ''Master semantic markup and accessibility'',
       icon = Element (Component ''FileText'') [(''className'', Str ''w-6 h-6'')] [],
       topics = [''Semantic Elements'', ''Forms & Validation'', ''Accessibility'', ''SEO Basics''],
       difficulty = ''Beginner'',
       color = ''bg-orange-500'' \<rparr>,
     \<lparr> title = ''CSS Mastery'',
       description = ''Modern styling with layouts and animations'',
       icon = Element (Component ''Code'') [(''className'', Str ''w-6 h-6'')] [],
       topics = [''Flexbox & Grid'', ''Responsive Design'', ''Animations'', ''Custom Properties''],
       difficulty = ''Intermediate'',
       color = ''bg-blue-500'' \<rparr>,
     \<lparr> title = ''JavaScript Essentials'',
       description = ''Core language features and modern patterns'',
       icon = Element (Component ''Zap'') [(''className'', Str ''w-6 h-6'')] [],
       topics = [''ES6+ Features'', ''Async/Await'', ''DOM Manipulation'', ''Error Handling''],
       difficulty = ''Intermediate'',
       color = ''bg-yellow-500'' \<rparr>,
     \<lparr> title = ''TypeScript Guide'',
       description = ''Type-safe JavaScript development'',
       icon = Element (Component ''Target'') [(''className'', Str ''w-6 h-6'')] [],
       topics = [''Types & Interfaces'', ''Generics'', ''React Integration'', ''Advanced Patterns''],
       difficulty = ''Advanced'',
       color = ''bg-indigo-500'' \<rparr>,
     \<lparr> title = ''React Development'',
       description = ''Component-based UI development'',
       icon = Element (Component ''Users'') [(''className'', Str ''w-6 h-6'')] [],
       topics = [''Components & Hooks'', ''State Management'', ''Performance'', ''Testing''],
       difficulty = ''Intermediate'',
       color = ''bg-cyan-500'' \<rparr>,
     \<lparr> title = ''Next.js Framework'',
       description = ''Full-stack React applications'',
       icon = Element (Component ''BookOpen'') [(''className'', Str ''w-6 h-6'')] [],
       topics = [''App Router'', ''Server Components'', ''API Routes'', ''Optimization''],
       difficulty = ''Advanced'',
       color = ''bg-purple-500'' \<rparr>]"

definition features :: "feature list" where
  "features =
    [\<lparr> feature.icon =
         Element (Component ''BookOpen'') [(''className'', Str ''w-8 h-8 text-blue-600'')] [],
       feature.title = ''Comprehensive Guides'',
       feature.description =
         ''In-depth documentation covering all essential frontend technologies'' \<rparr>,
     \<lparr> feature.icon =
         Element (Component ''Code'') [(''className'', Str ''w-8 h-8 text-green-600'')] [],
       feature.title = ''Practical Examples'',
       feature.description = ''Real-world code examples with detailed explanations'' \<rparr>,
     \<lparr> feature.icon =
         Element (Component ''Target'') [(''className'', Str ''w-8 h-8 text-purple-600'')] [],
       feature.title = ''Best Practices'',
       feature.description = ''Industry-standard patterns and proven methodologies'' \<rparr>,
     \<lparr> feature.icon =
         Element (Component ''Trophy'') [(''className'', Str ''w-8 h-8 text-yellow-600'')] [],
       feature.title = ''Common Pitfalls'',
       feature.description = ''Learn from mistakes and avoid common development traps'' \<rparr>]"

subsection \<open>The scope of the component body and \<^verbatim>\<open>Array.prototype.map\<close>\<close>

text \<open>
  The return expression of \<^verbatim>\<open>Index\<close> is evaluated in the scope of the two \<^verbatim>\<open>const\<close>
  bindings. The bindings are immutable, the arrays and objects they are bound to are
  not: JavaScript would let any code that holds them write to them. To make a write
  expressible, the evaluation is modelled with the scope passed in and returned.
\<close>

record scope =
  sc_learningPaths :: "learning_path list"
  sc_features :: "feature list"

definition Index_scope :: scope where
  "Index_scope = \<lparr> sc_learningPaths = learningPaths, sc_features = features \<rparr>"

text \<open>
  \<^verbatim>\<open>xs.map(callbackfn)\<close> calls \<^verbatim>\<open>callbackfn(element, index)\<close> for the elements in ascending
  index order and collects the results in a new array; the second argument here is the
  index of the first element. Whatever a callback does to the scope is seen by the
  following calls.
\<close>

fun array_map ::
  "('a \<Rightarrow> nat \<Rightarrow> scope \<Rightarrow> 'b \<times> scope) \<Rightarrow> nat \<Rightarrow> 'a list \<Rightarrow> scope \<Rightarrow> 'b list \<times> scope" where
  "array_map callbackfn k [] s = ([], s)"
| "array_map callbackfn k (x # xs) s =
     (case callbackfn x k s of
        (y, s') \<Rightarrow> (case array_map callbackfn (Suc k) xs s' of (ys, s'') \<Rightarrow> (y # ys, s'')))"

subsection \<open>The callbacks of the four \<^verbatim>\<open>map\<close> calls\<close>

text \<open>
  Each callback is an arrow function whose body is one JSX expression. It reads its
  arguments and writes nothing, so it returns the scope as it got it. In JSX text,
  lines are trimmed and joined by one space, and a \<^verbatim>\<open>{/* comment */}\<close> yields no child.
\<close>

text \<open>\<^verbatim>\<open>features.map((feature, index) => (<Card key={index} ...> ... </Card>))\<close>\<close>

definition feature_card :: "feature \<Rightarrow> nat \<Rightarrow> scope \<Rightarrow> vnode \<times> scope" where
  "feature_card feature index s =
     (Element (Component ''Card'')
        [(''key'', Num index),
         (''className'', Str ''text-center border-0 shadow-lg hover:shadow-xl transition-all duration-300 hover:-translate-y-1'')]
        [Element (Component ''CardHeader'') []
           [Element (Host ''div'') [(''className'', Str ''flex justify-center mb-4'')]
              [feature.icon feature],
            Element (Component ''CardTitle'') [(''className'', Str ''text-xl'')]
              [Text (feature.title feature)]],
         Element (Component ''CardContent'') []
           [Element (Component ''CardDescription'') [(''className'', Str ''text-base'')]
              [Text (feature.description feature)]]],
      s)"

text \<open>\<^verbatim>\<open>path.topics.map((topic, topicIndex) => (<Badge key={topicIndex} ...>{topic}</Badge>))\<close>\<close>

definition topic_badge :: "string \<Rightarrow> nat \<Rightarrow> scope \<Rightarrow> vnode \<times> scope" where
  "topic_badge topic topicIndex s =
     (Element (Component ''Badge'')
        [(''key'', Num topicIndex), (''variant'', Str ''secondary''), (''className'', Str ''text-xs'')]
        [Text topic],
      s)"

text \<open>
  \<^verbatim>\<open>learningPaths.map((path, index) => (<Card key={index} ...> ... </Card>))\<close>. The badge
  of the card takes its class from \<^verbatim>\<open>getDifficultyColor(path.difficulty)\<close>; the topics
  are mapped in turn.
\<close>

definition path_card :: "learning_path \<Rightarrow> nat \<Rightarrow> scope \<Rightarrow> vnode \<times> scope" where
  "path_card path index s =
     (case array_map topic_badge 0 (topics path) s of
        (badges, s') \<Rightarrow>
          (Element (Component ''Card'')
             [(''key'', Num index),
              (''className'', Str ''group hover:shadow-xl transition-all duration-300 hover:-translate-y-2 border-0 shadow-lg overflow-hidden'')]
             [Element (Host ''div'') [(''className'', Str (''h-2 '' @ color path))] [],
              Element (Component ''CardHeader'') [(''className'', Str ''pb-4'')]
                [Element (Host ''div'') [(''className'', Str ''flex items-start justify-between'')]
                   [Element (Host ''div'')
                      [(''className'', Str (''p-3 rounded-lg '' @ color path @ '' text-white mb-4''))]
                      [icon path],
                    Element (Component ''Badge'')
                      [(''className'', Str (getDifficultyColor (difficulty path)))]
                      [Text (difficulty path)]],
                 Element (Component ''CardTitle'')
                   [(''className'', Str ''text-xl group-hover:text-blue-600 transition-colors'')]
                   [Text (title path)],
                 Element (Component ''CardDescription'') [(''className'', Str ''text-base'')]
                   [Text (description path)]],
              Element (Component ''CardContent'') []
                [Element (Host ''div'') [(''className'', Str ''space-y-3'')]
                   [Element (Host ''div'') [(''className'', Str ''flex flex-wrap gap-2'')] badges,
                    Element (Component ''Button'')
                      [(''className'', Str ''w-full mt-4 group-hover:bg-blue-600 transition-colors'')]
                      [Text ''Start Learning'',
                       Element (Component ''ArrowRight'') [(''className'', Str ''w-4 h-4 ml-2'')] []]]]],
           s'))"

text \<open>
  \<^verbatim>\<open>[...].map((tech) => (<div key={tech} ...><span ...>{tech}</span></div>))\<close>. The
  callback declares one parameter; the index that \<^verbatim>\<open>map\<close> passes is ignored.
\<close>

definition tech_tile :: "string \<Rightarrow> nat \<Rightarrow> scope \<Rightarrow> vnode \<times> scope" where
  "tech_tile tech index s =
     (Element (Host ''div'')
        [(''key'', Str tech),
         (''className'', Str ''bg-white/10 backdrop-blur-sm rounded-lg p-3 text-center'')]
        [Element (Host ''span'') [(''className'', Str ''font-medium'')] [Text tech]],
      s)"

subsection \<open>The sections of the page\<close>

text \<open>
  The returned expression is a \<^verbatim>\<open>div\<close> of five sections, in the source each under a
  comment that names it. A section that holds a \<^verbatim>\<open>map\<close> call takes the mapped array,
  which becomes the children of the section's grid.
\<close>

definition hero_section :: vnode where
  "hero_section =
     Element (Host ''section'') [(''className'', Str ''relative overflow-hidden bg-white'')]
       [Element (Host ''div'')
          [(''className'', Str ''absolute inset-0 bg-gradient-to-r from-blue-600/10 to-purple-600/10'')] [],
        Element (Host ''div'') [(''className'', Str ''relative container mx-auto px-4 py-20'')]
          [Element (Host ''div'') [(''className'', Str ''text-center max-w-4xl mx-auto'')]
             [Element (Host ''div'')
                [(''className'', Str ''inline-flex items-center gap-2 bg-blue-100 text-blue-800 px-4 py-2 rounded-full text-sm font-medium mb-6'')]
                [Element (Component ''BookOpen'') [(''className'', Str ''w-4 h-4'')] [],
                 Text ''Frontend Developer Learning Hub''],
              Element (Host ''h1'')
                [(''className'', Str ''text-5xl md:text-6xl font-bold text-gray-900 mb-6 leading-tight'')]
                [Text ''Master Modern'',
                 Element (Host ''span'')
                   [(''className'', Str ''text-transparent bg-clip-text bg-gradient-to-r from-blue-600 to-purple-600'')]
                   [Text '' Frontend''],
                 Element (Host ''br'') [] [],
                 Text ''Development''],
              Element (Host ''p'') [(''className'', Str ''text-xl text-gray-600 mb-8 leading-relaxed'')]
                [Text ''Comprehensive guides, practical examples, and best practices for HTML, CSS, JavaScript, React, TypeScript, Next.js, TailwindCSS, and testing frameworks.''],
              Element (Host ''div'') [(''className'', Str ''flex flex-col sm:flex-row gap-4 justify-center'')]
                [Element (Component ''Button'')
                   [(''size'', Str ''lg''), (''className'', Str ''text-lg px-8 py-3'')]
                   [Text ''Start Learning'',
                    Element (Component ''ArrowRight'') [(''className'', Str ''w-5 h-5 ml-2'')] []],
                 Element (Component ''Button'')
                   [(''variant'', Str ''outline''), (''size'', Str ''lg''),
                    (''className'', Str ''text-lg px-8 py-3'')]
                   [Text ''View Documentation'']]]]]"

definition features_section :: "vnode list \<Rightarrow> vnode" where
  "features_section cards =
     Element (Host ''section'') [(''className'', Str ''py-20'')]
       [Element (Host ''div'') [(''className'', Str ''container mx-auto px-4'')]
          [Element (Host ''div'') [(''className'', Str ''text-center mb-16'')]
             [Element (Host ''h2'')
                [(''className'', Str ''text-3xl md:text-4xl font-bold text-gray-900 mb-4'')]
                [Text ''Everything You Need to Excel''],
              Element (Host ''p'') [(''className'', Str ''text-lg text-gray-600 max-w-2xl mx-auto'')]
                [Text ''Our learning platform provides structured guidance for developers at every stage'']],
           Element (Host ''div'')
             [(''className'', Str ''grid grid-cols-1 md:grid-cols-2 lg:grid-cols-4 gap-8'')]
             cards]]"

definition learning_paths_section :: "vnode list \<Rightarrow> vnode" where
  "learning_paths_section cards =
     Element (Host ''section'') [(''className'', Str ''py-20 bg-white'')]
       [Element (Host ''div'') [(''className'', Str ''container mx-auto px-4'')]
          [Element (Host ''div'') [(''className'', Str ''text-center mb-16'')]
             [Element (Host ''h2'')
                [(''className'', Str ''text-3xl md:text-4xl font-bold text-gray-900 mb-4'')]
                [Text ''Learning Paths''],
              Element (Host ''p'') [(''className'', Str ''text-lg text-gray-600 max-w-2xl mx-auto'')]
                [Text ''Structured guides to take you from beginner to expert in frontend development'']],
           Element (Host ''div'')
             [(''className'', Str ''grid grid-cols-1 md:grid-cols-2 lg:grid-cols-3 gap-8'')]
             cards]]"

definition documentation_preview_section :: "vnode list \<Rightarrow> vnode" where
  "documentation_preview_section tiles =
     Element (Host ''section'')
       [(''className'', Str ''py-20 bg-gradient-to-r from-blue-600 to-purple-600 text-white'')]
       [Element (Host ''div'') [(''className'', Str ''container mx-auto px-4'')]
          [Element (Host ''div'') [(''className'', Str ''max-w-4xl mx-auto text-center'')]
             [Element (Host ''h2'') [(''className'', Str ''text-3xl md:text-4xl font-bold mb-6'')]
                [Text ''Detailed Documentation Available''],
              Element (Host ''p'') [(''className'', Str ''text-xl mb-8 opacity-90'')]
                [Text ''Access comprehensive guides with code examples, best practices, and common pitfalls for each technology.''],
              Element (Host ''div'') [(''className'', Str ''grid grid-cols-2 md:grid-cols-4 gap-4 mb-8'')]
                tiles,
              Element (Component ''Button'')
                [(''size'', Str ''lg''), (''variant'', Str ''secondary''),
                 (''className'', Str ''text-lg px-8 py-3'')]
                [Text ''View All Documentation'',
                 Element (Component ''FileText'') [(''className'', Str ''w-5 h-5 ml-2'')] []]]]]"

definition cta_section :: vnode where
  "cta_section =
     Element (Host ''section'') [(''className'', Str ''py-20'')]
       [Element (Host ''div'') [(''className'', Str ''container mx-auto px-4'')]
          [Element (Component ''Card'')
             [(''className'', Str ''max-w-4xl mx-auto text-center border-0 shadow-2xl bg-gradient-to-r from-slate-50 to-blue-50'')]
             [Element (Component ''CardHeader'') [(''className'', Str ''pb-8'')]
                [Element (Component ''CardTitle'')
                   [(''className'', Str ''text-3xl md:text-4xl font-bold text-gray-900 mb-4'')]
                   [Text ''Ready to Level Up Your Skills?''],
                 Element (Component ''CardDescription'') [(''className'', Str ''text-lg text-gray-600'')]
                   [Text ''Join thousands of developers who have mastered frontend development with our comprehensive guides'']],
              Element (Component ''CardContent'') []
                [Element (Host ''div'')
                   [(''className'', Str ''flex flex-col sm:flex-row gap-4 justify-center'')]
                   [Element (Component ''Button'')
                      [(''size'', Str ''lg''), (''className'', Str ''text-lg px-8 py-3'')]
                      [Text ''Get Started Now'',
                       Element (Component ''ArrowRight'') [(''className'', Str ''w-5 h-5 ml-2'')] []],
                    Element (Component ''Button'')
                      [(''variant'', Str ''outline''), (''size'', Str ''lg''),
                       (''className'', Str ''text-lg px-8 py-3'')]
                      [Text ''Browse Documentation'']]]]]]"

subsection \<open>The component\<close>

text \<open>
  The return expression, evaluated in a scope: the three \<^verbatim>\<open>map\<close> calls of the page run
  in the order in which they stand in the expression, each in the scope the one before
  left.
\<close>

definition Index_render :: "scope \<Rightarrow> vnode \<times> scope" where
  "Index_render s =
     (case array_map feature_card 0 (sc_features s) s of
        (featureCards, s1) \<Rightarrow>
          (case array_map path_card 0 (sc_learningPaths s1) s1 of
             (pathCards, s2) \<Rightarrow>
               (case array_map tech_tile 0
                       [''HTML'', ''CSS'', ''JavaScript'', ''TypeScript'', ''React'', ''Next.js'',
                        ''TailwindCSS'', ''Testing''] s2 of
                  (techTiles, s3) \<Rightarrow>
                    (Element (Host ''div'')
                       [(''className'', Str ''min-h-screen bg-gradient-to-br from-slate-50 to-blue-50'')]
                       [hero_section,
                        features_section featureCards,
                        learning_paths_section pathCards,
                        documentation_preview_section techTiles,
                        cta_section],
                     s3))))"

text \<open>
  \<^verbatim>\<open>const Index = () => { ... }\<close>: the component takes no argument, binds the two arrays
  and returns the tree.
\<close>

definition Index :: vnode where
  "Index = fst (Index_render Index_scope)"

subsection \<open>Evaluations of the component\<close>

text \<open>
  The two arrays are \<^verbatim>\<open>const\<close> locals of the component body (lines 9 and 60 of the
  source), not of the module: every evaluation of \<^verbatim>\<open>Index()\<close> evaluates the two array
  literals again and so builds two new array objects. To tell one evaluation's arrays
  from another's, the array objects live in a heap, a list of objects in which the
  address of an object is its position; an allocation appends.
\<close>

datatype obj = Paths "learning_path list" | Features "feature list"

type_synonym heap = "obj list"

definition alloc :: "obj \<Rightarrow> heap \<Rightarrow> nat \<times> heap" where
  "alloc x h = (length h, h @ [x])"

text \<open>
  One evaluation of the component: the \<^verbatim>\<open>learningPaths\<close> literal is allocated, then the
  \<^verbatim>\<open>features\<close> literal; the bindings now denote these two objects, so the return
  expression is evaluated in \<open>Index_scope\<close>, and what that evaluation leaves in the scope
  is what the two objects hold afterwards. The component returns the tree.
\<close>

definition Index_call :: "heap \<Rightarrow> vnode \<times> heap" where
  "Index_call h =
     (case alloc (Paths learningPaths) h of
        (pa, h1) \<Rightarrow>
          (case alloc (Features features) h1 of
             (fa, h2) \<Rightarrow>
               (case Index_render Index_scope of
                  (tree, s') \<Rightarrow>
                    (tree,
                     h2[pa := Paths (sc_learningPaths s'), fa := Features (sc_features s')]))))"

text \<open>
  The \<^verbatim>\<open>learningPaths\<close> arrays and the \<^verbatim>\<open>features\<close> arrays of a heap; the arrays are
  defined once in a heap that holds one of each.
\<close>

fun is_paths :: "obj \<Rightarrow> bool" where
  "is_paths (Paths ps) = True"
| "is_paths (Features fs) = False"

fun is_features :: "obj \<Rightarrow> bool" where
  "is_features (Paths ps) = False"
| "is_features (Features fs) = True"

definition defined_once :: "heap \<Rightarrow> bool" where
  "defined_once h = (length (filter is_paths h) = 1 \<and> length (filter is_features h) = 1)"

subsection \<open>Reading a rendered tree\<close>

text \<open>
  The children of a node, and the node reached from a node by a path of child
  positions; \<open>None\<close> when a position on the path does not exist.
\<close>

fun children_of :: "vnode \<Rightarrow> vnode list" where
  "children_of (Element t as cs) = cs"
| "children_of (Text txt) = []"

fun child_at :: "vnode \<Rightarrow> nat list \<Rightarrow> vnode option" where
  "child_at n [] = Some n"
| "child_at n (i # is) =
     (if i < length (children_of n) then child_at (children_of n ! i) is else None)"

text \<open>
  The three grids of the page: the features grid is child 1 of child 0 of section 1,
  the learning-paths grid child 1 of child 0 of section 2, the technology grid child 2
  of child 0 of child 0 of section 3. What is rendered in a grid is its children.
\<close>

definition feature_cards :: "vnode \<Rightarrow> vnode list" where
  "feature_cards page = (case child_at page [1, 0, 1] of Some g \<Rightarrow> children_of g | None \<Rightarrow> [])"

definition learning_path_cards :: "vnode \<Rightarrow> vnode list" where
  "learning_path_cards page =
     (case child_at page [2, 0, 1] of Some g \<Rightarrow> children_of g | None \<Rightarrow> [])"

definition technology_tiles :: "vnode \<Rightarrow> vnode list" where
  "technology_tiles page =
     (case child_at page [3, 0, 0, 2] of Some g \<Rightarrow> children_of g | None \<Rightarrow> [])"

section \<open>Properties of the difficulty badge style\<close>

lemma lower_labels:
  "map lower_ascii ''Beginner'' = ''beginner''"
  "map lower_ascii ''Intermediate'' = ''intermediate''"
  "map lower_ascii ''Advanced'' = ''advanced''"
  by (simp_all add: lower_ascii_def)

lemma lower_labels_inj:
  "inj_on (map lower_ascii) {''Beginner'', ''Intermediate'', ''Advanced''}"
  unfolding inj_on_def
  apply (intro ballI impI)
  apply (elim insertE emptyE)
          apply (simp_all only: lower_labels)
  apply simp_all
  done

text \<open>
  Claim C1. Each of the three labels Beginner, Intermediate, Advanced is mapped to its
  own fixed style token (green, yellow, red); every other string is mapped to the
  default gray token; in particular Unknown is mapped to the gray token.
\<close>

theorem getDifficultyColor_table:
  "getDifficultyColor ''Beginner'' = ''bg-green-100 text-green-800''
   \<and> getDifficultyColor ''Intermediate'' = ''bg-yellow-100 text-yellow-800''
   \<and> getDifficultyColor ''Advanced'' = ''bg-red-100 text-red-800''
   \<and> (\<forall>d. d \<notin> {''Beginner'', ''Intermediate'', ''Advanced''}
          \<longrightarrow> getDifficultyColor d = ''bg-gray-100 text-gray-800'')
   \<and> getDifficultyColor ''Unknown'' = ''bg-gray-100 text-gray-800''"
  by (simp add: getDifficultyColor_def)

theorem getDifficultyColor_table_witness:
  "''Expert'' \<notin> {''Beginner'', ''Intermediate'', ''Advanced''}
   \<and> getDifficultyColor ''Expert'' = ''bg-gray-100 text-gray-800''
   \<and> getDifficultyColor [] = ''bg-gray-100 text-gray-800''"
proof -
  note other = getDifficultyColor_table
    [THEN conjunct2, THEN conjunct2, THEN conjunct2, THEN conjunct1, rule_format]
  have a: "''Expert'' \<notin> {''Beginner'', ''Intermediate'', ''Advanced''}" by simp
  have b: "[] \<notin> {''Beginner'', ''Intermediate'', ''Advanced''}" by simp
  from a other [OF a] other [OF b] show ?thesis by simp
qed

text \<open>
  Claim C2. The mapping is total: whatever string it is given, recognised or not, it
  returns one of its four style tokens (the default one through the last branch). The
  function has no branch that raises, so its result type carries no error.
\<close>

theorem getDifficultyColor_total:
  "getDifficultyColor d \<in> {''bg-green-100 text-green-800'', ''bg-yellow-100 text-yellow-800'',
      ''bg-red-100 text-red-800'', ''bg-gray-100 text-gray-800''}
   \<and> getDifficultyColor d \<noteq> []"
  by (simp add: getDifficultyColor_def)

text \<open>
  Claim C8. The mapping is case-sensitive: a string that differs from one of the three
  labels only in letter case (beginner, BEGINNER, advanced, ...) gets the default gray
  token, which is not the token of that label.
\<close>

theorem getDifficultyColor_case_sensitive:
  assumes "l \<in> {''Beginner'', ''Intermediate'', ''Advanced''}"
    and "differs_only_in_case d l"
  shows "getDifficultyColor d = ''bg-gray-100 text-gray-800''
         \<and> getDifficultyColor d \<noteq> getDifficultyColor l"
proof -
  from assms have ne: "d \<noteq> l" and low: "map lower_ascii d = map lower_ascii l"
    by (simp_all add: differs_only_in_case_def)
  have "d \<notin> {''Beginner'', ''Intermediate'', ''Advanced''}"
  proof
    assume known: "d \<in> {''Beginner'', ''Intermediate'', ''Advanced''}"
    from lower_labels_inj low known assms(1) have "d = l"
      by (rule inj_onD)
    with ne show False by simp
  qed
  then have "getDifficultyColor d = ''bg-gray-100 text-gray-800''"
    by (simp add: getDifficultyColor_def)
  moreover from assms(1) have "getDifficultyColor l \<noteq> ''bg-gray-100 text-gray-800''"
    by (auto simp: getDifficultyColor_def)
  ultimately show ?thesis by simp
qed

theorem getDifficultyColor_case_sensitive_witness:
  "differs_only_in_case ''beginner'' ''Beginner''
   \<and> differs_only_in_case ''BEGINNER'' ''Beginner''
   \<and> differs_only_in_case ''advanced'' ''Advanced''
   \<and> getDifficultyColor ''beginner'' = ''bg-gray-100 text-gray-800''
   \<and> getDifficultyColor ''BEGINNER'' = ''bg-gray-100 text-gray-800''
   \<and> getDifficultyColor ''advanced'' = ''bg-gray-100 text-gray-800''"
proof -
  have a: "differs_only_in_case ''beginner'' ''Beginner''"
    by (simp add: differs_only_in_case_def lower_ascii_def)
  have b: "differs_only_in_case ''BEGINNER'' ''Beginner''"
    by (simp add: differs_only_in_case_def lower_ascii_def)
  have c: "differs_only_in_case ''advanced'' ''Advanced''"
    by (simp add: differs_only_in_case_def lower_ascii_def)
  have B: "''Beginner'' \<in> {''Beginner'', ''Intermediate'', ''Advanced''}" by simp
  have A: "''Advanced'' \<in> {''Beginner'', ''Intermediate'', ''Advanced''}" by simp
  from a b c getDifficultyColor_case_sensitive [OF B a]
    getDifficultyColor_case_sensitive [OF B b] getDifficultyColor_case_sensitive [OF A c]
  show ?thesis by simp
qed

text \<open>
  Claim C9. The tokens of the three labels are pairwise different and each differs from
  the default token; so among the three labels the token determines the label.
\<close>

theorem getDifficultyColor_distinct:
  "distinct [getDifficultyColor ''Beginner'', getDifficultyColor ''Intermediate'',
      getDifficultyColor ''Advanced'', ''bg-gray-100 text-gray-800'']
   \<and> inj_on getDifficultyColor {''Beginner'', ''Intermediate'', ''Advanced''}"
  by (simp add: getDifficultyColor_def)

theorem getDifficultyColor_distinct_witness:
  "getDifficultyColor ''Beginner'' \<noteq> getDifficultyColor ''Advanced''
   \<and> getDifficultyColor ''Intermediate'' \<noteq> ''bg-gray-100 text-gray-800''"
proof -
  have "inj_on getDifficultyColor {''Beginner'', ''Intermediate'', ''Advanced''}"
    using getDifficultyColor_distinct by (rule conjunct2)
  then have "getDifficultyColor ''Beginner'' = getDifficultyColor ''Advanced''
      \<Longrightarrow> ''Beginner'' = ''Advanced''"
    by (rule inj_onD) simp_all
  moreover have "getDifficultyColor ''Intermediate'' \<noteq> ''bg-gray-100 text-gray-800''"
    using getDifficultyColor_distinct by simp
  ultimately show ?thesis by auto
qed

section \<open>Properties of rendering\<close>

subsection \<open>The map calls, the callbacks and the three grids\<close>

lemma array_map_length: "length (fst (array_map f k xs s)) = length xs"
  by (induction xs arbitrary: k s) (simp_all add: split_def)

lemma array_map_frame:
  assumes "\<And>x k s. snd (f x k s) = s"
  shows "snd (array_map f k xs s) = s"
  by (induction xs arbitrary: k s) (simp_all add: split_def assms)

lemma array_map_result:
  assumes "\<And>x k s. snd (f x k s) = s"
  shows "fst (array_map f k xs s) = map (\<lambda>(i, x). fst (f x i s)) (enumerate k xs)"
  by (induction xs arbitrary: k s) (simp_all add: split_def assms array_map_frame)

lemma array_map_nth:
  assumes "\<And>x k s. snd (f x k s) = s" and "i < length xs"
  shows "fst (array_map f k xs s) ! i = fst (f (xs ! i) (k + i) s)"
  using assms(2) by (simp add: array_map_result [OF assms(1)] nth_enumerate_eq)

lemma feature_card_frame: "snd (feature_card f k s) = s"
  by (simp add: feature_card_def)

lemma topic_badge_frame: "snd (topic_badge t k s) = s"
  by (simp add: topic_badge_def)

lemma tech_tile_frame: "snd (tech_tile t k s) = s"
  by (simp add: tech_tile_def)

lemma path_card_frame: "snd (path_card p k s) = s"
  by (simp add: path_card_def split_def array_map_frame [of topic_badge, OF topic_badge_frame])

lemma Index_render_frame: "snd (Index_render s) = s"
  by (simp add: Index_render_def split_def
      array_map_frame [of feature_card, OF feature_card_frame]
      array_map_frame [of path_card, OF path_card_frame]
      array_map_frame [of tech_tile, OF tech_tile_frame] tech_tile_frame)

lemma Index_render_tree:
  "fst (Index_render s) =
     Element (Host ''div'')
       [(''className'', Str ''min-h-screen bg-gradient-to-br from-slate-50 to-blue-50'')]
       [hero_section,
        features_section (fst (array_map feature_card 0 (sc_features s) s)),
        learning_paths_section (fst (array_map path_card 0 (sc_learningPaths s) s)),
        documentation_preview_section
          (fst (array_map tech_tile 0
             [''HTML'', ''CSS'', ''JavaScript'', ''TypeScript'', ''React'', ''Next.js'',
              ''TailwindCSS'', ''Testing''] s)),
        cta_section]"
  by (simp add: Index_render_def split_def
      array_map_frame [of feature_card, OF feature_card_frame]
      array_map_frame [of path_card, OF path_card_frame])

lemma features_grid:
  "child_at (fst (Index_render s)) [1, 0, 1] =
     Some (Element (Host ''div'')
       [(''className'', Str ''grid grid-cols-1 md:grid-cols-2 lg:grid-cols-4 gap-8'')]
       (fst (array_map feature_card 0 (sc_features s) s)))"
  by (simp add: Index_render_tree features_section_def)

lemma learning_paths_grid:
  "child_at (fst (Index_render s)) [2, 0, 1] =
     Some (Element (Host ''div'')
       [(''className'', Str ''grid grid-cols-1 md:grid-cols-2 lg:grid-cols-3 gap-8'')]
       (fst (array_map path_card 0 (sc_learningPaths s) s)))"
  by (simp add: Index_render_tree learning_paths_section_def)

lemma technology_grid:
  "child_at (fst (Index_render s)) [3, 0, 0, 2] =
     Some (Element (Host ''div'')
       [(''className'', Str ''grid grid-cols-2 md:grid-cols-4 gap-4 mb-8'')]
       (fst (array_map tech_tile 0
             [''HTML'', ''CSS'', ''JavaScript'', ''TypeScript'', ''React'', ''Next.js'',
              ''TailwindCSS'', ''Testing''] s)))"
  by (simp add: Index_render_tree documentation_preview_section_def)

lemma feature_cards_render:
  "feature_cards (fst (Index_render s)) = fst (array_map feature_card 0 (sc_features s) s)"
  by (simp only: feature_cards_def features_grid option.case children_of.simps)

lemma learning_path_cards_render:
  "learning_path_cards (fst (Index_render s))
     = fst (array_map path_card 0 (sc_learningPaths s) s)"
  by (simp only: learning_path_cards_def learning_paths_grid option.case children_of.simps)

lemma technology_tiles_render:
  "technology_tiles (fst (Index_render s))
     = fst (array_map tech_tile 0
         [''HTML'', ''CSS'', ''JavaScript'', ''TypeScript'', ''React'', ''Next.js'',
          ''TailwindCSS'', ''Testing''] s)"
  by (simp only: technology_tiles_def technology_grid option.case children_of.simps)

lemma feature_card_title:
  "child_at (fst (feature_card f k s)) [0, 1, 0] = Some (Text (feature.title f))"
  by (simp add: feature_card_def)

lemma path_card_title:
  "child_at (fst (path_card p k s)) [1, 1, 0] = Some (Text (title p))"
  by (simp add: path_card_def split_def)

lemma Index_call_heap:
  "snd (Index_call h) = h @ [Paths learningPaths, Features features]"
proof -
  have "snd (Index_call h)
      = (h @ [Paths learningPaths, Features features])
          [length h := Paths (sc_learningPaths Index_scope),
           Suc (length h) := Features (sc_features Index_scope)]"
    by (simp add: Index_call_def alloc_def split_def Index_render_frame)
  also have "\<dots> = h @ [Paths learningPaths, Features features]"
    by (simp add: Index_scope_def list_update_append)
  finally show ?thesis .
qed

lemma Index_call_tree: "fst (Index_call h) = Index"
  by (simp add: Index_call_def alloc_def split_def Index_def)

subsection \<open>What the page renders\<close>

text \<open>
  Claim C3. In the tree the component returns, for the arrays bound in its scope, the
  features grid has as many cards as the \<^verbatim>\<open>features\<close> array has elements and the
  learning-paths grid as many cards as the \<^verbatim>\<open>learningPaths\<close> array has; so for the page
  itself.
\<close>

theorem rendered_card_counts:
  "child_at (fst (Index_render s)) [1, 0, 1] \<noteq> None
   \<and> child_at (fst (Index_render s)) [2, 0, 1] \<noteq> None
   \<and> length (feature_cards (fst (Index_render s))) = length (sc_features s)
   \<and> length (learning_path_cards (fst (Index_render s))) = length (sc_learningPaths s)
   \<and> length (feature_cards Index) = length features
   \<and> length (learning_path_cards Index) = length learningPaths"
  by (simp add: feature_cards_render learning_path_cards_render Index_def Index_scope_def
      features_grid learning_paths_grid array_map_length del: child_at.simps One_nat_def)

text \<open>
  Claim C4. The cards stand in sequence order: the grids have the lengths of their
  arrays (nothing filtered out, no pagination) and the card at position \<open>i\<close> is the one
  the callback makes of element \<open>i\<close> and index \<open>i\<close>; its title is that element's title.
\<close>

theorem cards_in_sequence_order:
  "length (feature_cards (fst (Index_render s))) = length (sc_features s)
   \<and> (\<forall>i < length (sc_features s).
         feature_cards (fst (Index_render s)) ! i = fst (feature_card (sc_features s ! i) i s)
         \<and> child_at (feature_cards (fst (Index_render s)) ! i) [0, 1, 0]
             = Some (Text (feature.title (sc_features s ! i))))
   \<and> length (learning_path_cards (fst (Index_render s))) = length (sc_learningPaths s)
   \<and> (\<forall>i < length (sc_learningPaths s).
         learning_path_cards (fst (Index_render s)) ! i
           = fst (path_card (sc_learningPaths s ! i) i s)
         \<and> child_at (learning_path_cards (fst (Index_render s)) ! i) [1, 1, 0]
             = Some (Text (title (sc_learningPaths s ! i))))"
  by (simp add: feature_cards_render learning_path_cards_render
      array_map_length array_map_nth [of feature_card, OF feature_card_frame]
      array_map_nth [of path_card, OF path_card_frame] feature_card_title path_card_title
      del: child_at.simps One_nat_def)

theorem cards_in_sequence_order_witness:
  "(2::nat) < length (sc_features Index_scope)
   \<and> child_at (feature_cards Index ! 2) [0, 1, 0] = Some (Text ''Best Practices'')
   \<and> (3::nat) < length (sc_learningPaths Index_scope)
   \<and> child_at (learning_path_cards Index ! 3) [1, 1, 0] = Some (Text ''TypeScript Guide'')"
proof -
  have f: "(2::nat) < length (sc_features Index_scope)"
    by (simp add: Index_scope_def features_def)
  have p: "(3::nat) < length (sc_learningPaths Index_scope)"
    by (simp add: Index_scope_def learningPaths_def)
  note order = cards_in_sequence_order [of Index_scope]
  from order f have "child_at (feature_cards Index ! 2) [0, 1, 0]
      = Some (Text (feature.title (sc_features Index_scope ! 2)))"
    unfolding Index_def by blast
  moreover have "feature.title (sc_features Index_scope ! 2) = ''Best Practices''"
    by (simp add: Index_scope_def features_def)
  moreover from order p have "child_at (learning_path_cards Index ! 3) [1, 1, 0]
      = Some (Text (title (sc_learningPaths Index_scope ! 3)))"
    unfolding Index_def by blast
  moreover have "title (sc_learningPaths Index_scope ! 3) = ''TypeScript Guide''"
    by (simp add: Index_scope_def learningPaths_def)
  ultimately show ?thesis using f p by simp
qed

text \<open>
  Claim C5. Rendering is idempotent and deterministic: rendering again, in the scope the
  first rendering left, returns the same tree and leaves the same scope.
\<close>

theorem rendering_idempotent:
  "fst (Index_render (snd (Index_render s))) = fst (Index_render s)
   \<and> snd (Index_render (snd (Index_render s))) = snd (Index_render s)"
  by (simp add: Index_render_frame)

text \<open>
  Claim C6. Every element of \<^verbatim>\<open>learningPaths\<close> has one of the three known labels as its
  difficulty, so its badge never gets the token of the default branch.
\<close>

theorem learningPaths_difficulty_known:
  "\<forall>p \<in> set learningPaths.
     difficulty p \<in> {''Beginner'', ''Intermediate'', ''Advanced''}
     \<and> getDifficultyColor (difficulty p) \<noteq> ''bg-gray-100 text-gray-800''"
  by (simp add: learningPaths_def getDifficultyColor_def)

theorem learningPaths_difficulty_known_witness:
  "learningPaths ! 3 \<in> set learningPaths
   \<and> difficulty (learningPaths ! 3) = ''Advanced''
   \<and> difficulty (learningPaths ! 3) \<in> {''Beginner'', ''Intermediate'', ''Advanced''}
   \<and> getDifficultyColor (difficulty (learningPaths ! 3)) \<noteq> ''bg-gray-100 text-gray-800''"
proof -
  have m: "learningPaths ! 3 \<in> set learningPaths"
    by (simp add: learningPaths_def)
  have d: "difficulty (learningPaths ! 3) = ''Advanced''"
    by (simp add: learningPaths_def)
  from m d learningPaths_difficulty_known [THEN bspec, OF m] show ?thesis
    by (simp only: simp_thms)
qed

text \<open>
  Claim C7, as the code has it. The arrays are not defined once: each evaluation of the
  component builds a new \<^verbatim>\<open>learningPaths\<close> array and a new \<^verbatim>\<open>features\<close> array, with
  the contents of the literals, after the objects the heap held before, which it
  leaves as they were; the tree returned is the same at every evaluation. No array is
  ever mutated: the two new arrays hold the literals' contents when the evaluation
  ends, and the scope after the evaluation of the return expression holds the arrays it
  held before, element by element and field by field, and so does the scope after each
  of the \<^verbatim>\<open>map\<close> calls. \<^verbatim>\<open>getDifficultyColor\<close> is a function of its argument alone.
\<close>

theorem arrays_rebuilt_not_mutated:
  "snd (Index_call h) = h @ [Paths learningPaths, Features features]
   \<and> length (filter is_paths (snd (Index_call h))) = Suc (length (filter is_paths h))
   \<and> length (filter is_features (snd (Index_call h))) = Suc (length (filter is_features h))
   \<and> fst (Index_call h) = Index
   \<and> sc_learningPaths (snd (Index_render s)) = sc_learningPaths s
   \<and> sc_features (snd (Index_render s)) = sc_features s
   \<and> snd (Index_render Index_scope)
       = \<lparr> sc_learningPaths = learningPaths, sc_features = features \<rparr>
   \<and> snd (array_map feature_card k fs s) = s
   \<and> snd (array_map path_card k ps s) = s
   \<and> snd (array_map topic_badge k ts s) = s"
proof -
  have heap: "snd (Index_call h) = h @ [Paths learningPaths, Features features]"
    by (rule Index_call_heap)
  have "length (filter is_paths (snd (Index_call h))) = Suc (length (filter is_paths h))"
    and "length (filter is_features (snd (Index_call h))) = Suc (length (filter is_features h))"
    by (simp_all only: heap filter_append filter.simps is_paths.simps is_features.simps
        if_True if_False length_append list.size add_Suc_right add_0_right)
  moreover have "fst (Index_call h) = Index"
    by (rule Index_call_tree)
  moreover have "sc_learningPaths (snd (Index_render s)) = sc_learningPaths s"
    and "sc_features (snd (Index_render s)) = sc_features s"
    by (simp_all only: Index_render_frame)
  moreover have "snd (Index_render Index_scope)
       = \<lparr> sc_learningPaths = learningPaths, sc_features = features \<rparr>"
    by (simp only: Index_render_frame Index_scope_def)
  moreover have "snd (array_map feature_card k fs s) = s"
    by (rule array_map_frame [of feature_card, OF feature_card_frame])
  moreover have "snd (array_map path_card k ps s) = s"
    by (rule array_map_frame [of path_card, OF path_card_frame])
  moreover have "snd (array_map topic_badge k ts s) = s"
    by (rule array_map_frame [of topic_badge, OF topic_badge_frame])
  ultimately show ?thesis
    using heap by (simp only: simp_thms)
qed

text \<open>
  Claim C7, as it is written, fails in its first part: after one evaluation of the
  component, from the empty heap, there is one array of each kind; after a second
  evaluation there are two of each, so the arrays are not defined once.
\<close>

theorem arrays_defined_once_counterexample:
  "defined_once (snd (Index_call []))
   \<and> \<not> defined_once (snd (Index_call (snd (Index_call []))))
   \<and> length (filter is_paths (snd (Index_call (snd (Index_call []))))) = 2
   \<and> length (filter is_features (snd (Index_call (snd (Index_call []))))) = 2"
  by (simp add: Index_call_heap defined_once_def)

text \<open>
  Claim C10. The technology grid of the documentation-preview section holds exactly
  eight tiles, one for each name of the literal list, in the order HTML, CSS,
  JavaScript, TypeScript, React, Next.js, TailwindCSS, Testing.
\<close>

theorem technology_tiles_rendered:
  "technology_tiles (fst (Index_render s)) =
     map (\<lambda>tech.
            Element (Host ''div'')
              [(''key'', Str tech),
               (''className'', Str ''bg-white/10 backdrop-blur-sm rounded-lg p-3 text-center'')]
              [Element (Host ''span'') [(''className'', Str ''font-medium'')] [Text tech]])
       [''HTML'', ''CSS'', ''JavaScript'', ''TypeScript'', ''React'', ''Next.js'',
        ''TailwindCSS'', ''Testing'']
   \<and> length (technology_tiles (fst (Index_render s))) = 8
   \<and> technology_tiles Index = technology_tiles (fst (Index_render s))"
  by (simp add: technology_tiles_render Index_def tech_tile_def)

end
